theory Spec2Isabelle
  imports Complex_Main "HOL-Library.Monad_Syntax" "HOL-Library.Word"
begin

section \<open>Floating-point values\<close>

text \<open>
  The driver computes on JAX arrays of floating-point numbers. The embedding keeps the
  special values of IEEE 754 apart from the finite ones: one not-a-number, the two
  infinities, and the finite values, which are carried as reals. The operations follow
  the IEEE rules for the special values; on finite operands they are the exact real
  operations (neither rounding nor overflow to infinity is modelled, and the sign of a
  zero is not kept: \<open>-0.0 == 0.0\<close> in Python). No statement below depends on the value
  that a finite operation returns, other than \<open>x * 0 = 0\<close>.
\<close>

datatype flt = NaN | PInf | NInf | Fin real

fun is_nan :: "flt \<Rightarrow> bool" where
  "is_nan NaN = True"
| "is_nan _ = False"

fun is_finite :: "flt \<Rightarrow> bool" where
  "is_finite (Fin _) = True"
| "is_finite _ = False"

fun fneg :: "flt \<Rightarrow> flt" where
  "fneg NaN = NaN"
| "fneg PInf = NInf"
| "fneg NInf = PInf"
| "fneg (Fin a) = Fin (- a)"

fun fadd :: "flt \<Rightarrow> flt \<Rightarrow> flt" where
  "fadd NaN _ = NaN"
| "fadd _ NaN = NaN"
| "fadd PInf NInf = NaN"
| "fadd NInf PInf = NaN"
| "fadd PInf _ = PInf"
| "fadd _ PInf = PInf"
| "fadd NInf _ = NInf"
| "fadd _ NInf = NInf"
| "fadd (Fin a) (Fin b) = Fin (a + b)"

definition fsub :: "flt \<Rightarrow> flt \<Rightarrow> flt" where
  "fsub x y = fadd x (fneg y)"

text \<open>The infinity of the sign of \<open>a\<close>; the product of an infinity and zero is NaN.\<close>

definition signed_inf :: "real \<Rightarrow> flt" where
  "signed_inf a = (if a = 0 then NaN else if 0 < a then PInf else NInf)"

fun fmul :: "flt \<Rightarrow> flt \<Rightarrow> flt" where
  "fmul NaN _ = NaN"
| "fmul _ NaN = NaN"
| "fmul PInf PInf = PInf"
| "fmul PInf NInf = NInf"
| "fmul NInf PInf = NInf"
| "fmul NInf NInf = PInf"
| "fmul PInf (Fin b) = signed_inf b"
| "fmul NInf (Fin b) = signed_inf (- b)"
| "fmul (Fin a) PInf = signed_inf a"
| "fmul (Fin a) NInf = signed_inf (- a)"
| "fmul (Fin a) (Fin b) = Fin (a * b)"

text \<open>
  Division of arrays never raises in JAX: a finite value over zero is an infinity of its
  sign (the divisor here is a non-negative count, so the zero is \<open>+0\<close>), and \<open>0 / 0\<close> is
  NaN.
\<close>

fun fdiv :: "flt \<Rightarrow> flt \<Rightarrow> flt" where
  "fdiv NaN _ = NaN"
| "fdiv _ NaN = NaN"
| "fdiv (Fin a) (Fin b) = (if b = 0 then signed_inf a else Fin (a / b))"
| "fdiv (Fin a) _ = Fin 0"
| "fdiv PInf (Fin b) = (if 0 \<le> b then PInf else NInf)"
| "fdiv NInf (Fin b) = (if 0 \<le> b then NInf else PInf)"
| "fdiv _ _ = NaN"

text \<open>
  The largest finite value of the default JAX float type (binary32). With 64-bit floats
  enabled it is the largest binary64 value; the statements below use only that it is a
  finite value.
\<close>

definition float_max :: real where
  "float_max = 340282346638528859811704183484516925440"

text \<open>
  \<open>jnp.nan_to_num(x)\<close> with its default arguments (\<open>nan=0.0, posinf=None, neginf=None\<close>):
  NaN becomes zero, an infinity becomes the largest finite value of its sign, every other
  value is returned as it is.
\<close>

fun nan_to_num :: "flt \<Rightarrow> flt" where
  "nan_to_num NaN = Fin 0"
| "nan_to_num PInf = Fin float_max"
| "nan_to_num NInf = Fin (- float_max)"
| "nan_to_num (Fin a) = Fin a"

section \<open>Arrays\<close>

text \<open>
  An array is the list of its elements in row-major order. The operations the driver
  applies are the element-wise ones. Two arrays of different sizes are not combined:
  \<open>None\<close> stands for the error JAX raises on incompatible shapes. (JAX would broadcast
  some pairs of unequal shapes; the sampler's contract is to return a statistic of the
  parameters' shape, and a scan carry may not change its shape, so the embedding treats
  every size mismatch as the error.)
\<close>

type_synonym arr = "flt list"

definition arr_scale :: "arr \<Rightarrow> flt \<Rightarrow> arr" where
  "arr_scale x s = map (\<lambda>a. fmul a s) x"

definition arr_div :: "arr \<Rightarrow> flt \<Rightarrow> arr" where
  "arr_div x s = map (\<lambda>a. fdiv a s) x"

definition arr_zip :: "(flt \<Rightarrow> flt \<Rightarrow> flt) \<Rightarrow> arr \<Rightarrow> arr \<Rightarrow> arr option" where
  "arr_zip g x y = (if length x = length y then Some (map2 g x y) else None)"

definition arr_add :: "arr \<Rightarrow> arr \<Rightarrow> arr option" where
  "arr_add = arr_zip fadd"

text \<open>\<open>jnp.sum\<close> of a one-dimensional array.\<close>

definition arr_sum :: "arr \<Rightarrow> flt" where
  "arr_sum x = foldl fadd (Fin 0) x"

section \<open>The parameter tree (params.py)\<close>

text \<open>
  \<open>NetParams\<close> is a dataclass of nine fields: four sequences of arrays (\<open>_V\<close>, \<open>_b\<close>,
  \<open>_W\<close>, \<open>_c\<close>) and five arrays. The fields carry the prefix \<open>p\<close> here, since a name
  cannot start with an underscore.
\<close>

record NetParams =
  p_V :: "arr list"
  p_b :: "arr list"
  p_W :: "arr list"
  p_c :: "arr list"
  p_w_alpha :: arr
  p_g_alpha :: arr
  p_Sigma_alpha :: arr
  p_pi_alpha :: arr
  p_omega :: arr

text \<open>The leaves of the tree, in the order of the fields.\<close>

definition leaves :: "NetParams \<Rightarrow> arr list" where
  "leaves p = p_V p @ p_b p @ p_W p @ p_c p @
     [p_w_alpha p, p_g_alpha p, p_Sigma_alpha p, p_pi_alpha p, p_omega p]"

text \<open>
  The shape of a tree: the sizes of the arrays of each sequence and of the five single
  arrays. Two trees of one shape have the same tree structure and leaves of the same
  sizes.
\<close>

definition shape :: "NetParams \<Rightarrow> nat list \<times> nat list \<times> nat list \<times> nat list \<times> nat list" where
  "shape p = (map length (p_V p), map length (p_b p), map length (p_W p), map length (p_c p),
     [length (p_w_alpha p), length (p_g_alpha p), length (p_Sigma_alpha p),
      length (p_pi_alpha p), length (p_omega p)])"

text \<open>\<open>jax.tree_util.tree_map(f, tree)\<close>: \<open>f\<close> on every leaf.\<close>

definition tree_map :: "(arr \<Rightarrow> arr) \<Rightarrow> NetParams \<Rightarrow> NetParams" where
  "tree_map f p =
     \<lparr>p_V = map f (p_V p), p_b = map f (p_b p), p_W = map f (p_W p), p_c = map f (p_c p),
      p_w_alpha = f (p_w_alpha p), p_g_alpha = f (p_g_alpha p),
      p_Sigma_alpha = f (p_Sigma_alpha p), p_pi_alpha = f (p_pi_alpha p),
      p_omega = f (p_omega p)\<rparr>"

text \<open>
  \<open>jax.tree_util.tree_map(f, tree, rest)\<close>: \<open>f\<close> on every pair of corresponding leaves.
  It raises when the two trees differ in structure (sequences of different lengths) or
  when \<open>f\<close> raises on a pair of leaves.
\<close>

fun zip_leaves :: "(arr \<Rightarrow> arr \<Rightarrow> arr option) \<Rightarrow> arr list \<Rightarrow> arr list \<Rightarrow> arr list option" where
  "zip_leaves f [] [] = Some []"
| "zip_leaves f (x # xs) (y # ys) =
     (case f x y of None \<Rightarrow> None
      | Some z \<Rightarrow> (case zip_leaves f xs ys of None \<Rightarrow> None | Some zs \<Rightarrow> Some (z # zs)))"
| "zip_leaves f _ _ = None"

definition tree_map2 :: "(arr \<Rightarrow> arr \<Rightarrow> arr option) \<Rightarrow> NetParams \<Rightarrow> NetParams \<Rightarrow> NetParams option" where
  "tree_map2 f p q = do {
     v \<leftarrow> zip_leaves f (p_V p) (p_V q);
     b \<leftarrow> zip_leaves f (p_b p) (p_b q);
     w \<leftarrow> zip_leaves f (p_W p) (p_W q);
     c \<leftarrow> zip_leaves f (p_c p) (p_c q);
     wa \<leftarrow> f (p_w_alpha p) (p_w_alpha q);
     ga \<leftarrow> f (p_g_alpha p) (p_g_alpha q);
     sa \<leftarrow> f (p_Sigma_alpha p) (p_Sigma_alpha q);
     pa \<leftarrow> f (p_pi_alpha p) (p_pi_alpha q);
     om \<leftarrow> f (p_omega p) (p_omega q);
     Some \<lparr>p_V = v, p_b = b, p_W = w, p_c = c, p_w_alpha = wa, p_g_alpha = ga,
           p_Sigma_alpha = sa, p_pi_alpha = pa, p_omega = om\<rparr>
   }"

section \<open>The gradient estimator (driver.py, lines 169-171)\<close>

text \<open>
  \<open>grad_L = tree_map(lambda x, y: jnp.nan_to_num(x - y * E), O_times_local_energy, O)\<close>
\<close>

definition grad_L :: "flt \<Rightarrow> NetParams \<Rightarrow> NetParams \<Rightarrow> NetParams option" where
  "grad_L E O_times_local_energy O' =
     tree_map2 (\<lambda>x y. map_option (map nan_to_num) (arr_zip fsub x (arr_scale y E)))
       O_times_local_energy O'"

section \<open>The collaborators\<close>

text \<open>
  The library functions the driver calls are parameters of the embedding:
  \<open>jax.random.PRNGKey\<close>, \<open>jax.random.split\<close> (a key is split into an array of two
  keys, unpacked by the driver into a pair) and \<open>jnp.concatenate(_, axis=0)\<close>.
\<close>

record ('k, 'w, 'cfg) jax =
  PRNGKey :: "int \<Rightarrow> 'k"
  split :: "'k \<Rightarrow> 'k \<times> 'k"
  concatenate :: "'w \<Rightarrow> 'cfg"

text \<open>
  An \<open>NNQS\<close> object holds a sampler, a Hamiltonian, a network and the batch size. Of the
  three collaborators the driver calls \<open>sampler.next_sample\<close>,
  \<open>hamiltonian.calc_local_energy\<close>, \<open>ferminet.init_walker_config\<close> and
  \<open>ferminet.apply\<close>; they are pure functions (the driver runs them under \<open>jax.jit\<close> and
  \<open>jax.lax.scan\<close>). The batch size is a count.
\<close>

record ('cfg, 'lp, 'k, 'w) NNQS =
  next_sample :: "'lp \<Rightarrow> NetParams \<Rightarrow> 'cfg \<Rightarrow> 'k \<Rightarrow> 'cfg \<times> 'lp \<times> NetParams"
  calc_local_energy :: "NetParams \<Rightarrow> 'cfg \<Rightarrow> flt"
  init_walker_config :: "flt \<Rightarrow> 'k \<Rightarrow> 'w"
  ferminet_apply :: "NetParams \<Rightarrow> 'cfg \<Rightarrow> 'lp"
  batch_size :: nat

text \<open>
  An optax optimizer (\<open>init\<close>, \<open>update\<close>) together with \<open>optax.apply_updates\<close>; its
  state is passed explicitly.
\<close>

record 'os optimizer =
  opt_init :: "NetParams \<Rightarrow> 'os"
  opt_update :: "NetParams \<Rightarrow> 'os \<Rightarrow> NetParams \<Rightarrow> NetParams \<times> 'os"
  apply_updates :: "NetParams \<Rightarrow> NetParams \<Rightarrow> NetParams"

section \<open>The local-energy kernel (driver.py, lines 49-86)\<close>

text \<open>
  The carry of the scan is the tuple
  \<open>(log_psi, params, walker_cfg, sum_O, sum_O_times_local_energy, seed)\<close>; the fields of
  the record are its positions, in this order.
\<close>

record ('lp, 'cfg, 'k) carry =
  c_log_psi :: 'lp
  c_params :: NetParams
  c_walker_cfg :: 'cfg
  c_sum_O :: NetParams
  c_sum_O_times_local_energy :: NetParams
  c_seed :: 'k

text \<open>
  The kernel keeps the source's names: \<open>subseed, seed = jax.random.split(seed)\<close> binds
  \<open>subseed\<close> to the first key of the split and rebinds \<open>seed\<close> to the second; the
  sampler is then called with \<open>seed\<close>, and \<open>subseed\<close> is returned in the carry. The
  second argument \<open>x\<close> of the kernel is the scanned element, which is \<open>None\<close> at every
  step and is not used.
\<close>

definition calc_local_energy_kernel ::
  "('k, 'w, 'cfg) jax \<Rightarrow> ('cfg, 'lp, 'k, 'w) NNQS \<Rightarrow> ('lp, 'cfg, 'k) carry \<Rightarrow>
   (('lp, 'cfg, 'k) carry \<times> flt) option" where
  "calc_local_energy_kernel lib self carry =
     (let log_psi = c_log_psi carry; params = c_params carry; walker_cfg = c_walker_cfg carry;
          sum_O = c_sum_O carry;
          sum_O_times_local_energy = c_sum_O_times_local_energy carry;
          seed = c_seed carry;
          (subseed, seed) = split lib seed;
          local_energy = calc_local_energy self params walker_cfg;
          (next_walker_cfg, next_log_psi, next_O) =
             next_sample self log_psi params walker_cfg seed
      in do {
        sum_O \<leftarrow> tree_map2 (\<lambda>x y. arr_add x y) sum_O next_O;
        sum_O_times_local_energy \<leftarrow>
          tree_map2 (\<lambda>x y. arr_add x (arr_scale y local_energy))
            sum_O_times_local_energy next_O;
        Some (\<lparr>c_log_psi = next_log_psi, c_params = params, c_walker_cfg = next_walker_cfg,
               c_sum_O = sum_O, c_sum_O_times_local_energy = sum_O_times_local_energy,
               c_seed = subseed\<rparr>, local_energy)
      })"

section \<open>The batch evaluator (driver.py, lines 88-131)\<close>

text \<open>
  \<open>jax.lax.scan(f, init, None, length)\<close>: \<open>f\<close> is run \<open>length\<close> times, each run on the
  carry the previous one returned, and the emitted values are collected in order. An
  error of \<open>f\<close> is an error of the scan. (JAX finds the errors of shape when it traces
  \<open>f\<close>, before the first step; the scan below finds them at the step that makes them.)
\<close>

fun scan :: "('c \<Rightarrow> ('c \<times> 'y) option) \<Rightarrow> 'c \<Rightarrow> nat \<Rightarrow> ('c \<times> 'y list) option" where
  "scan f init 0 = Some (init, [])"
| "scan f init (Suc n) =
     (case f init of None \<Rightarrow> None
      | Some (carry, y) \<Rightarrow>
          (case scan f carry n of None \<Rightarrow> None
           | Some (final, ys) \<Rightarrow> Some (final, y # ys)))"

text \<open>The carry built at lines 110-117.\<close>

definition init_carry :: "'cfg \<Rightarrow> 'lp \<Rightarrow> NetParams \<Rightarrow> 'k \<Rightarrow> ('lp, 'cfg, 'k) carry" where
  "init_carry init_walker_cfg init_log_psi params seed =
     \<lparr>c_log_psi = init_log_psi, c_params = params, c_walker_cfg = init_walker_cfg,
      c_sum_O = tree_map (\<lambda>x. arr_scale x (Fin 0)) params,
      c_sum_O_times_local_energy = tree_map (\<lambda>x. arr_scale x (Fin 0)) params,
      c_seed = seed\<rparr>"

definition calc_local_energies ::
  "('k, 'w, 'cfg) jax \<Rightarrow> ('cfg, 'lp, 'k, 'w) NNQS \<Rightarrow> 'cfg \<Rightarrow> 'lp \<Rightarrow> NetParams \<Rightarrow> 'k \<Rightarrow>
   (flt list \<times> flt \<times> NetParams \<times> NetParams) option" where
  "calc_local_energies lib self init_walker_cfg init_log_psi params seed =
     (let carry = init_carry init_walker_cfg init_log_psi params seed
      in do {
        (carry, local_energies) \<leftarrow>
          scan (calc_local_energy_kernel lib self) carry (batch_size self);
        let E = fdiv (arr_sum local_energies) (Fin (real (batch_size self)));
        let O' = tree_map (\<lambda>x. arr_div x (Fin (real (batch_size self)))) (c_sum_O carry);
        let O_times_local_energy =
          tree_map (\<lambda>x. arr_div x (Fin (real (batch_size self))))
            (c_sum_O_times_local_energy carry);
        Some (local_energies, E, O', O_times_local_energy)
      })"

section \<open>The training loop (driver.py, lines 133-194)\<close>

text \<open>
  The variables that live across the iterations of the loop: \<open>key\<close>, \<open>opt_state\<close>,
  \<open>params\<close> and the list \<open>Es\<close>.
\<close>

record ('k, 'os) train_state =
  t_key :: 'k
  t_opt_state :: 'os
  t_params :: NetParams
  t_Es :: "flt list"

text \<open>
  The body of the loop (lines 158-176). \<open>jitted_calc_local_energies\<close> is called with
  three arguments, so the fourth parameter of \<open>calc_local_energies\<close> takes its default
  value \<open>jax.random.PRNGKey(0)\<close>. The plot that is redrawn every tenth iteration
  (lines 178-190) changes none of the variables.
\<close>

definition train_iteration ::
  "('k, 'w, 'cfg) jax \<Rightarrow> ('cfg, 'lp, 'k, 'w) NNQS \<Rightarrow> 'os optimizer \<Rightarrow>
   ('cfg \<Rightarrow> 'lp \<Rightarrow> NetParams \<Rightarrow> 'k \<Rightarrow> (flt list \<times> flt \<times> NetParams \<times> NetParams) option) \<Rightarrow>
   ('k, 'os) train_state \<Rightarrow> ('k, 'os) train_state option" where
  "train_iteration lib self optimizer jitted_calc_local_energies st =
     (let params = t_params st;
          (subkey, key) = split lib (t_key st);
          walker_cfg = init_walker_config self (Fin 1) key;
          walker_cfg = concatenate lib walker_cfg;
          (subkey, key) = split lib key;
          log_psi = ferminet_apply self params walker_cfg
      in do {
        (local_energies, E, O', O_times_local_energy) \<leftarrow>
          jitted_calc_local_energies walker_cfg log_psi params (PRNGKey lib 0);
        grad \<leftarrow> grad_L E O_times_local_energy O';
        let (updates, opt_state) = opt_update optimizer grad (t_opt_state st) params;
        let params = apply_updates optimizer params updates;
        Some \<lparr>t_key = key, t_opt_state = opt_state, t_params = params, t_Es = t_Es st @ [E]\<rparr>
      })"

text \<open>\<open>for i in range(n)\<close>, with a body that may raise.\<close>

fun for_range :: "nat \<Rightarrow> ('s \<Rightarrow> 's option) \<Rightarrow> 's \<Rightarrow> 's option" where
  "for_range 0 body s = Some s"
| "for_range (Suc n) body s =
     (case body s of None \<Rightarrow> None | Some s' \<Rightarrow> for_range n body s')"

text \<open>
  The names bound at the top level of driver.py (lines 1-15): the imports and the class.
  A name that a method reads without assigning it is looked up here, and then among the
  builtins of Python, where there is no \<open>plt\<close>.
\<close>

definition module_globals :: "string list" where
  "module_globals = [''jnp'', ''np'', ''jax'', ''optax'', ''Sequence'', ''Union'', ''tqdm'',
     ''h5py'', ''Sampler'', ''Hamiltonian'', ''FermiNet'', ''NetParams'', ''NNQS'']"

text \<open>
  The errors of \<open>train\<close>: a name that is not bound, and the error of a \<open>tree_map\<close> on
  trees that do not match.
\<close>

datatype error = NameError string | TreeError

text \<open>
  \<open>train\<close>: the optimizer state is initialised, then line 151 reads the name \<open>plt\<close>
  (\<open>fig, ax = plt.subplots(dpi=150)\<close>) before the loop starts; the loop runs
  \<open>range(n_iters)\<close>, which is empty for a negative \<open>n_iters\<close>. \<open>expected_E\<close> is used by
  the plot only.
\<close>

definition train ::
  "('k, 'w, 'cfg) jax \<Rightarrow> ('cfg, 'lp, 'k, 'w) NNQS \<Rightarrow> int \<Rightarrow> NetParams \<Rightarrow> 'os optimizer \<Rightarrow>
   flt \<Rightarrow> error + (NetParams \<times> flt list)" where
  "train lib self n_iters params optimizer expected_E =
     (let opt_state = opt_init optimizer params;
          jitted_calc_local_energies = calc_local_energies lib self
      in if ''plt'' \<notin> set module_globals then Inl (NameError ''plt'')
         else
           (let Es = []; key = PRNGKey lib 0
            in case for_range (nat n_iters)
                      (train_iteration lib self optimizer jitted_calc_local_energies)
                      \<lparr>t_key = key, t_opt_state = opt_state, t_params = params, t_Es = Es\<rparr> of
                 None \<Rightarrow> Inl TreeError
               | Some st \<Rightarrow> Inr (t_params st, t_Es st)))"

section \<open>Test values\<close>

text \<open>Small parameter trees and collaborators on which the statements below are run.\<close>

definition ex_params :: NetParams where
  "ex_params = \<lparr>p_V = [[Fin 2]], p_b = [], p_W = [], p_c = [], p_w_alpha = [],
     p_g_alpha = [], p_Sigma_alpha = [], p_pi_alpha = [], p_omega = [Fin 1]\<rparr>"

definition ex_O_times_E :: NetParams where
  "ex_O_times_E = \<lparr>p_V = [[Fin 3]], p_b = [], p_W = [], p_c = [], p_w_alpha = [],
     p_g_alpha = [], p_Sigma_alpha = [], p_pi_alpha = [], p_omega = [Fin 5]\<rparr>"

text \<open>Trees with an infinite and with a NaN element.\<close>

definition ex_inf :: NetParams where
  "ex_inf = \<lparr>p_V = [[Fin 3]], p_b = [], p_W = [], p_c = [], p_w_alpha = [],
     p_g_alpha = [], p_Sigma_alpha = [], p_pi_alpha = [], p_omega = [PInf]\<rparr>"

definition ex_nan :: NetParams where
  "ex_nan = \<lparr>p_V = [[Fin 2]], p_b = [], p_W = [], p_c = [], p_w_alpha = [],
     p_g_alpha = [], p_Sigma_alpha = [], p_pi_alpha = [], p_omega = [NaN]\<rparr>"

text \<open>
  A key is the path of its derivation: splitting appends one bit. The sampler of
  \<open>recording_nnqs\<close> appends the key it is called with to the configuration, and
  returns the parameters as its statistic; the local energy is the number of keys
  recorded so far.
\<close>

definition path_keys :: "(bool list, bool list list list, bool list list) jax" where
  "path_keys = \<lparr>PRNGKey = (\<lambda>n. []), split = (\<lambda>k. (k @ [False], k @ [True])),
     concatenate = concat\<rparr>"

definition recording_nnqs :: "(bool list list, unit, bool list, bool list list list) NNQS" where
  "recording_nnqs = \<lparr>next_sample = (\<lambda>lp p cfg k. (cfg @ [k], lp, p)),
     calc_local_energy = (\<lambda>p cfg. Fin (real (length cfg))),
     init_walker_config = (\<lambda>s k. [[k]]),
     ferminet_apply = (\<lambda>p cfg. ()),
     batch_size = 2\<rparr>"

text \<open>The carries of two steps of the kernel on the recording collaborators.\<close>

definition ex_c0 :: "(unit, bool list list, bool list) carry" where
  "ex_c0 = init_carry [] () ex_params []"

definition ex_c1 :: "(unit, bool list list, bool list) carry" where
  "ex_c1 = \<lparr>c_log_psi = (), c_params = ex_params, c_walker_cfg = [[True]],
     c_sum_O = ex_params,
     c_sum_O_times_local_energy = tree_map (\<lambda>x. arr_scale x (Fin 0)) ex_params,
     c_seed = [False]\<rparr>"

definition ex_c2 :: "(unit, bool list list, bool list) carry" where
  "ex_c2 = \<lparr>c_log_psi = (), c_params = ex_params, c_walker_cfg = [[True], [False, True]],
     c_sum_O = tree_map (\<lambda>x. arr_scale x (Fin 2)) ex_params,
     c_sum_O_times_local_energy = ex_params,
     c_seed = [False, False]\<rparr>"



text \<open>
  Keys of 64 bits, as those of JAX, with a split that computes the two keys from the
  key alone; and the recording collaborators on these keys, with the carries of two steps
  of the kernel.
\<close>

definition word_keys :: "(64 word, 64 word list list, 64 word list) jax" where
  "word_keys = \<lparr>PRNGKey = word_of_int, split = (\<lambda>k. (2 * k + 1, 2 * k + 2)),
     concatenate = concat\<rparr>"


definition ex_w0 :: "(unit, 64 word list, 64 word) carry" where
  "ex_w0 = init_carry [] () ex_params 0"

definition ex_w1 :: "(unit, 64 word list, 64 word) carry" where
  "ex_w1 = \<lparr>c_log_psi = (), c_params = ex_params, c_walker_cfg = [2],
     c_sum_O = ex_params,
     c_sum_O_times_local_energy = tree_map (\<lambda>x. arr_scale x (Fin 0)) ex_params,
     c_seed = 1\<rparr>"

definition ex_w2 :: "(unit, 64 word list, 64 word) carry" where
  "ex_w2 = \<lparr>c_log_psi = (), c_params = ex_params, c_walker_cfg = [2, 4],
     c_sum_O = tree_map (\<lambda>x. arr_scale x (Fin 2)) ex_params,
     c_sum_O_times_local_energy = ex_params,
     c_seed = 3\<rparr>"

section \<open>Lemmas on trees\<close>

text \<open>
  A leaf function that succeeds on every pair of leaves of equal size succeeds on every
  pair of trees of equal shape, and the result is the leaf-wise combination.
\<close>

lemma zip_leaves_total:
  assumes f: "\<And>x y. length x = length y \<Longrightarrow> f x y = Some (F x y)"
  shows "map length xs = map length ys \<Longrightarrow> zip_leaves f xs ys = Some (map2 F xs ys)"
proof (induction xs arbitrary: ys)
  case Nil
  then show ?case by simp
next
  case (Cons x xs)
  then obtain y ys' where ys: "ys = y # ys'" by (cases ys) auto
  with Cons.prems have "length x = length y" "map length xs = map length ys'" by auto
  with Cons.IH f ys show ?case by simp
qed

lemma tree_map2_total:
  assumes f: "\<And>x y. length x = length y \<Longrightarrow> f x y = Some (F x y)"
    and s: "shape p = shape q"
  shows "tree_map2 f p q = Some
     \<lparr>p_V = map2 F (p_V p) (p_V q), p_b = map2 F (p_b p) (p_b q),
      p_W = map2 F (p_W p) (p_W q), p_c = map2 F (p_c p) (p_c q),
      p_w_alpha = F (p_w_alpha p) (p_w_alpha q), p_g_alpha = F (p_g_alpha p) (p_g_alpha q),
      p_Sigma_alpha = F (p_Sigma_alpha p) (p_Sigma_alpha q),
      p_pi_alpha = F (p_pi_alpha p) (p_pi_alpha q), p_omega = F (p_omega p) (p_omega q)\<rparr>"
proof -
  from s have l: "map length (p_V p) = map length (p_V q)" "map length (p_b p) = map length (p_b q)"
    "map length (p_W p) = map length (p_W q)" "map length (p_c p) = map length (p_c q)"
    "length (p_w_alpha p) = length (p_w_alpha q)" "length (p_g_alpha p) = length (p_g_alpha q)"
    "length (p_Sigma_alpha p) = length (p_Sigma_alpha q)" "length (p_pi_alpha p) = length (p_pi_alpha q)"
    "length (p_omega p) = length (p_omega q)"
    by (simp_all add: shape_def)
  show ?thesis
    unfolding tree_map2_def
    by (simp add: zip_leaves_total [of f F, OF f] l f)
qed

lemma map_length_eq_length: "map length xs = map length ys \<Longrightarrow> length xs = length ys"
  by (metis length_map)

lemma leaves_tree_map2:
  assumes f: "\<And>x y. length x = length y \<Longrightarrow> f x y = Some (F x y)"
    and s: "shape p = shape q"
  shows "\<exists>r. tree_map2 f p q = Some r \<and> leaves r = map2 F (leaves p) (leaves q)"
proof -
  from s have l: "length (p_V p) = length (p_V q)" "length (p_b p) = length (p_b q)"
    "length (p_W p) = length (p_W q)" "length (p_c p) = length (p_c q)"
    by (auto simp: shape_def dest: map_length_eq_length)
  show ?thesis
    by (simp add: tree_map2_total [OF f s] leaves_def l)
qed

lemma shape_tree_map2:
  assumes f: "\<And>x y. length x = length y \<Longrightarrow> f x y = Some (F x y)"
    and len: "\<And>x y. length x = length y \<Longrightarrow> length (F x y) = length x"
    and s: "shape p = shape q"
  shows "\<exists>r. tree_map2 f p q = Some r \<and> shape r = shape p"
proof -
  have m: "map length (map2 F xs ys) = map length xs" if "map length xs = map length ys" for xs ys
    using that
  proof (induction xs arbitrary: ys)
    case Nil then show ?case by simp
  next
    case (Cons x xs) then show ?case by (cases ys) (auto simp: len)
  qed
  from s have l: "map length (p_V p) = map length (p_V q)" "map length (p_b p) = map length (p_b q)"
    "map length (p_W p) = map length (p_W q)" "map length (p_c p) = map length (p_c q)"
    "length (p_w_alpha p) = length (p_w_alpha q)" "length (p_g_alpha p) = length (p_g_alpha q)"
    "length (p_Sigma_alpha p) = length (p_Sigma_alpha q)" "length (p_pi_alpha p) = length (p_pi_alpha q)"
    "length (p_omega p) = length (p_omega q)"
    by (simp_all add: shape_def)
  show ?thesis
    using m [OF l(1)] m [OF l(2)] m [OF l(3)] m [OF l(4)]
    by (simp add: tree_map2_total [OF f s] shape_def len l(5-9))
qed

lemma leaves_tree_map: "leaves (tree_map f p) = map f (leaves p)"
  by (simp add: leaves_def tree_map_def)

lemma shape_tree_map:
  "(\<And>x. length (f x) = length x) \<Longrightarrow> shape (tree_map f p) = shape p"
  by (simp add: shape_def tree_map_def)

section \<open>Lemmas on the kernel and the scan\<close>

lemma arr_add_total: "length x = length y \<Longrightarrow> arr_add x y = Some (map2 fadd x y)"
  by (simp add: arr_add_def arr_zip_def)

lemma arr_add_scale_total:
  "length x = length y \<Longrightarrow> arr_add x (arr_scale y e) = Some (map2 fadd x (arr_scale y e))"
  by (simp add: arr_add_def arr_zip_def arr_scale_def)

lemma kernel_inversion:
  assumes "calc_local_energy_kernel lib self c = Some (c', e)"
  shows "c_params c' = c_params c"
    and "c_seed c' = fst (split lib (c_seed c))"
    and "e = calc_local_energy self (c_params c) (c_walker_cfg c)"
    and "c_walker_cfg c' =
           fst (next_sample self (c_log_psi c) (c_params c) (c_walker_cfg c)
                  (snd (split lib (c_seed c))))"
    and "c_log_psi c' =
           fst (snd (next_sample self (c_log_psi c) (c_params c) (c_walker_cfg c)
                  (snd (split lib (c_seed c)))))"
    and "tree_map2 arr_add (c_sum_O c)
           (snd (snd (next_sample self (c_log_psi c) (c_params c) (c_walker_cfg c)
                  (snd (split lib (c_seed c)))))) = Some (c_sum_O c')"
    and "tree_map2 (\<lambda>x y. arr_add x (arr_scale y e)) (c_sum_O_times_local_energy c)
           (snd (snd (next_sample self (c_log_psi c) (c_params c) (c_walker_cfg c)
                  (snd (split lib (c_seed c)))))) = Some (c_sum_O_times_local_energy c')"
  using assms
  by (auto simp: calc_local_energy_kernel_def Let_def bind_eq_Some_conv split: prod.splits)

lemma kernel_total:
  assumes sp: "split lib (c_seed c) = (s1, s2)"
    and ns: "next_sample self (c_log_psi c) (c_params c) (c_walker_cfg c) s2 = (cfg', lp', nO)"
    and s1: "shape (c_sum_O c) = shape nO"
    and s2: "shape (c_sum_O_times_local_energy c) = shape nO"
  shows "\<exists>so soe. calc_local_energy_kernel lib self c =
           Some (\<lparr>c_log_psi = lp', c_params = c_params c, c_walker_cfg = cfg', c_sum_O = so,
                  c_sum_O_times_local_energy = soe, c_seed = s1\<rparr>,
                 calc_local_energy self (c_params c) (c_walker_cfg c))
         \<and> shape so = shape nO \<and> shape soe = shape nO"
proof -
  let ?e = "calc_local_energy self (c_params c) (c_walker_cfg c)"
  obtain so where so: "tree_map2 arr_add (c_sum_O c) nO = Some so" "shape so = shape (c_sum_O c)"
    using shape_tree_map2 [of arr_add "map2 fadd", OF arr_add_total _ s1] by auto
  obtain soe where soe: "tree_map2 (\<lambda>x y. arr_add x (arr_scale y ?e)) (c_sum_O_times_local_energy c) nO = Some soe"
    "shape soe = shape (c_sum_O_times_local_energy c)"
    using shape_tree_map2 [of "\<lambda>x y. arr_add x (arr_scale y ?e)" "\<lambda>x y. map2 fadd x (arr_scale y ?e)",
        OF arr_add_scale_total _ s2]
    by (auto simp: arr_scale_def)
  show ?thesis
    using so soe s1 s2 by (simp add: calc_local_energy_kernel_def Let_def sp ns)
qed

lemma scan_chain:
  "scan f c n = Some (c', ys) \<Longrightarrow>
   \<exists>cs. length cs = Suc n \<and> cs ! 0 = c \<and> cs ! n = c' \<and> length ys = n \<and>
        (\<forall>i<n. f (cs ! i) = Some (cs ! Suc i, ys ! i))"
proof (induction n arbitrary: c c' ys)
  case 0
  then show ?case by (auto intro: exI [of _ "[c]"])
next
  case (Suc n)
  from Suc.prems obtain c1 y ys' where
    step: "f c = Some (c1, y)" and rest: "scan f c1 n = Some (c', ys')" and ys: "ys = y # ys'"
    by (auto split: option.splits prod.splits)
  from Suc.IH [OF rest] obtain cs where cs: "length cs = Suc n" "cs ! 0 = c1" "cs ! n = c'"
    "length ys' = n" "\<forall>i<n. f (cs ! i) = Some (cs ! Suc i, ys' ! i)"
    by blast
  have "\<forall>i<Suc n. f ((c # cs) ! i) = Some ((c # cs) ! Suc i, ys ! i)"
  proof (intro allI impI)
    fix i assume "i < Suc n"
    then show "f ((c # cs) ! i) = Some ((c # cs) ! Suc i, ys ! i)"
      using step cs ys by (cases i) auto
  qed
  with cs ys show ?case
    by (intro exI [of _ "c # cs"]) auto
qed

lemma scan_total:
  assumes step: "\<And>c. I c \<Longrightarrow> \<exists>c' y. f c = Some (c', y) \<and> I c'"
  shows "I c \<Longrightarrow> \<exists>c' ys. scan f c n = Some (c', ys) \<and> I c'"
proof (induction n arbitrary: c)
  case 0
  then show ?case by simp
next
  case (Suc n)
  from step [OF Suc.prems] obtain c1 y where c1: "f c = Some (c1, y)" "I c1" by blast
  from Suc.IH [OF c1(2)] obtain c' ys where "scan f c1 n = Some (c', ys)" "I c'" by blast
  with c1 show ?case by simp
qed

section \<open>The gradient estimator\<close>

lemma grad_L_leaf_total:
  "length x = length y \<Longrightarrow>
   map_option (map nan_to_num) (arr_zip fsub x (arr_scale y E)) =
     Some (map2 (\<lambda>a b. nan_to_num (fsub a (fmul b E))) x y)"
  by (auto simp: arr_zip_def arr_scale_def zip_map2)

lemma raw_leaf_total:
  "length x = length y \<Longrightarrow>
   arr_zip fsub x (arr_scale y E) = Some (map2 (\<lambda>a b. fsub a (fmul b E)) x y)"
  by (auto simp: arr_zip_def arr_scale_def zip_map2)

lemma grad_L_leaves:
  assumes "shape OtE = shape O'"
  shows "\<exists>g. grad_L E OtE O' = Some g \<and> shape g = shape O' \<and>
     leaves g = map2 (map2 (\<lambda>a b. nan_to_num (fsub a (fmul b E)))) (leaves OtE) (leaves O')"
proof -
  let ?f = "\<lambda>x y. map_option (map nan_to_num) (arr_zip fsub x (arr_scale y E))"
  let ?F = "map2 (\<lambda>a b. nan_to_num (fsub a (fmul b E)))"
  have f: "\<And>x y. length x = length y \<Longrightarrow> ?f x y = Some (?F x y)"
    by (rule grad_L_leaf_total)
  from leaves_tree_map2 [of ?f ?F, OF f assms] obtain g where
    g: "tree_map2 ?f OtE O' = Some g" "leaves g = map2 ?F (leaves OtE) (leaves O')" by blast
  from shape_tree_map2 [of ?f ?F, OF f _ assms] g(1) have "shape g = shape OtE" by auto
  with g assms show ?thesis by (simp add: grad_L_def)
qed

lemma zip_leaves_map_option:
  "zip_leaves (\<lambda>x y. map_option h (f x y)) xs ys = map_option (map h) (zip_leaves f xs ys)"
  by (induction f xs ys rule: zip_leaves.induct) (auto split: option.splits)

lemma tree_map2_map_option:
  "tree_map2 (\<lambda>x y. map_option h (f x y)) p q = map_option (tree_map h) (tree_map2 f p q)"
  unfolding tree_map2_def zip_leaves_map_option
  by (auto simp: tree_map_def split: option.splits Option.bind_splits)

text \<open>
  C1. For trees \<open>O_times_E\<close> and \<open>O\<close> of one shape and every \<open>E\<close>, the gradient estimator
  computes on every element of every leaf the value \<open>O_times_E - O * E\<close>: the tree \<open>raw\<close>
  of these values exists, its leaves are the element-wise \<open>O_times_E[leaf] - O[leaf] * E\<close>,
  and \<open>grad_L\<close> is \<open>nan_to_num\<close> applied to the elements of \<open>raw\<close>, so \<open>raw\<close> is the value of
  the gradient before the numerical-safety substitution.
\<close>

theorem grad_L_score_function:
  assumes "shape O_times_E = shape O'"
  shows "\<exists>raw. tree_map2 (\<lambda>x y. arr_zip fsub x (arr_scale y E)) O_times_E O' = Some raw \<and>
     leaves raw = map2 (map2 (\<lambda>x y. fsub x (fmul y E))) (leaves O_times_E) (leaves O') \<and>
     grad_L E O_times_E O' = Some (tree_map (map nan_to_num) raw)"
proof -
  let ?f = "\<lambda>x y. arr_zip fsub x (arr_scale y E)"
  let ?F = "map2 (\<lambda>a b. fsub a (fmul b E))"
  have f: "\<And>x y. length x = length y \<Longrightarrow> ?f x y = Some (?F x y)"
    by (rule raw_leaf_total)
  from leaves_tree_map2 [of ?f ?F, OF f assms] obtain raw where
    raw: "tree_map2 ?f O_times_E O' = Some raw"
      "leaves raw = map2 ?F (leaves O_times_E) (leaves O')" by blast
  have "grad_L E O_times_E O' = Some (tree_map (map nan_to_num) raw)"
    by (simp add: grad_L_def tree_map2_map_option raw(1))
  with raw show ?thesis by blast
qed

theorem grad_L_score_function_witness:
  "shape ex_O_times_E = shape ex_params \<and>
   (\<exists>raw. tree_map2 (\<lambda>x y. arr_zip fsub x (arr_scale y (Fin 2))) ex_O_times_E ex_params = Some raw \<and>
     leaves raw = map2 (map2 (\<lambda>x y. fsub x (fmul y (Fin 2)))) (leaves ex_O_times_E) (leaves ex_params) \<and>
     grad_L (Fin 2) ex_O_times_E ex_params = Some (tree_map (map nan_to_num) raw))"
proof -
  have h: "shape ex_O_times_E = shape ex_params"
    by (simp add: shape_def ex_O_times_E_def ex_params_def)
  show ?thesis using h grad_L_score_function [OF h, of "Fin 2"] by blast
qed

lemma nan_to_num_cases:
  "nan_to_num r = (if is_nan r then Fin 0 else if r = PInf then Fin float_max
                   else if r = NInf then Fin (- float_max) else r)"
  by (cases r) simp_all

lemma is_finite_nan_to_num: "is_finite (nan_to_num r)"
  by (cases r) simp_all

section \<open>The numerical-safety substitution\<close>

text \<open>
  C5 (amended). For trees \<open>O_times_E\<close> and \<open>O\<close> of one shape, the gradient handed to the
  optimizer holds, for every element \<open>r = O_times_E - O * E\<close>: zero where \<open>r\<close> is NaN,
  the largest finite value where \<open>r\<close> is plus infinity, its negation where \<open>r\<close> is minus
  infinity, and \<open>r\<close> itself where \<open>r\<close> is finite. Only the finite values pass unmodified.
\<close>
theorem grad_L_numerical_safety:
  assumes "shape O_times_E = shape O'"
  shows "\<exists>g. grad_L E O_times_E O' = Some g \<and>
     leaves g = map2 (map2 (\<lambda>x y. let r = fsub x (fmul y E) in
           if is_nan r then Fin 0
           else if r = PInf then Fin float_max
           else if r = NInf then Fin (- float_max)
           else r))
       (leaves O_times_E) (leaves O')"
  using grad_L_leaves [OF assms, of E] by (auto simp: nan_to_num_cases Let_def)

theorem grad_L_numerical_safety_witness:
  "shape ex_inf = shape ex_params \<and>
   (\<exists>g. grad_L (Fin 0) ex_inf ex_params = Some g \<and>
     leaves g = map2 (map2 (\<lambda>x y. let r = fsub x (fmul y (Fin 0)) in
           if is_nan r then Fin 0
           else if r = PInf then Fin float_max
           else if r = NInf then Fin (- float_max)
           else r))
       (leaves ex_inf) (leaves ex_params))"
proof -
  have h: "shape ex_inf = shape ex_params"
    by (simp add: shape_def ex_inf_def ex_params_def)
  show ?thesis using h grad_L_numerical_safety [OF h, of "Fin 0"] by blast
qed

text \<open>
  C5 as stated fails on an infinite element: with \<open>E = 0\<close> the value of
  \<open>O_times_E - O * E\<close> at \<open>omega\<close> is plus infinity, which is not NaN, and the gradient
  holds the largest finite value there.
\<close>

theorem grad_L_number_modified_counterexample:
  "tree_map2 (\<lambda>x y. arr_zip fsub x (arr_scale y (Fin 0))) ex_inf ex_params = Some ex_inf \<and>
   \<not> is_nan (p_omega ex_inf ! 0) \<and>
   map_option p_omega (grad_L (Fin 0) ex_inf ex_params) = Some [Fin float_max] \<and>
   [Fin float_max] \<noteq> p_omega ex_inf"
  by (simp add: grad_L_def tree_map2_def arr_zip_def arr_scale_def fsub_def ex_inf_def
      ex_params_def)

text \<open>
  C10. For trees \<open>O_times_E\<close> and \<open>O\<close> of one shape and every \<open>E\<close>, the gradient
  estimator returns a tree all of whose elements are finite: NaN has become zero and the
  infinities have become the largest finite values.
\<close>
theorem grad_L_all_finite:
  assumes "shape O_times_E = shape O'"
  shows "\<exists>g. grad_L E O_times_E O' = Some g \<and>
     (\<forall>leaf \<in> set (leaves g). \<forall>x \<in> set leaf. is_finite x)"
proof -
  from grad_L_leaves [OF assms, of E] obtain g where
    g: "grad_L E O_times_E O' = Some g"
    "leaves g = map2 (map2 (\<lambda>a b. nan_to_num (fsub a (fmul b E)))) (leaves O_times_E) (leaves O')"
    by blast
  have "\<forall>leaf \<in> set (leaves g). \<forall>x \<in> set leaf. is_finite x"
    unfolding g(2) by (auto simp: is_finite_nan_to_num)
  with g(1) show ?thesis by blast
qed

theorem grad_L_all_finite_witness:
  "shape ex_inf = shape ex_params \<and>
   (\<exists>g. grad_L (Fin 0) ex_inf ex_params = Some g \<and>
     (\<forall>leaf \<in> set (leaves g). \<forall>x \<in> set leaf. is_finite x))"
proof -
  have h: "shape ex_inf = shape ex_params"
    by (simp add: shape_def ex_inf_def ex_params_def)
  show ?thesis using h grad_L_all_finite [OF h, of "Fin 0"] by blast
qed

section \<open>The accumulators at the start of a batch\<close>

lemma fmul_zero: "fmul x (Fin 0) = (if is_finite x then Fin 0 else NaN)"
  by (cases x) (simp_all add: signed_inf_def)

lemma init_carry_accumulators:
  "c_sum_O (init_carry cfg lp p s) = tree_map (map (\<lambda>x. if is_finite x then Fin 0 else NaN)) p"
  "c_sum_O_times_local_energy (init_carry cfg lp p s) =
     tree_map (map (\<lambda>x. if is_finite x then Fin 0 else NaN)) p"
  by (simp_all add: init_carry_def arr_scale_def fmul_zero)

text \<open>
  C6 (amended). For parameters all of whose elements are finite, the two accumulators of
  the initial carry are all-zero trees of the parameters' shape.
\<close>

theorem init_carry_zero:
  assumes "\<forall>leaf \<in> set (leaves p). \<forall>x \<in> set leaf. is_finite x"
  shows "leaves (c_sum_O (init_carry cfg lp p s)) = map (map (\<lambda>x. Fin 0)) (leaves p) \<and>
     leaves (c_sum_O_times_local_energy (init_carry cfg lp p s)) = map (map (\<lambda>x. Fin 0)) (leaves p) \<and>
     shape (c_sum_O (init_carry cfg lp p s)) = shape p \<and>
     shape (c_sum_O_times_local_energy (init_carry cfg lp p s)) = shape p"
  using assms
  by (simp add: init_carry_accumulators leaves_tree_map shape_tree_map)

theorem init_carry_zero_witness:
  "leaves (c_sum_O (init_carry ([]::bool list list) () ex_params ([]::bool list))) =
     [[Fin 0], [], [], [], [], [Fin 0]] \<and>
   leaves (c_sum_O_times_local_energy (init_carry ([]::bool list list) () ex_params ([]::bool list))) =
     [[Fin 0], [], [], [], [], [Fin 0]] \<and>
   shape (c_sum_O (init_carry ([]::bool list list) () ex_params ([]::bool list))) =
     shape ex_params \<and>
   shape (c_sum_O_times_local_energy (init_carry ([]::bool list list) () ex_params ([]::bool list))) =
     shape ex_params"
proof -
  have h: "\<forall>leaf \<in> set (leaves ex_params). \<forall>x \<in> set leaf. is_finite x"
    by (simp add: leaves_def ex_params_def)
  have l: "map (map (\<lambda>x. Fin 0)) (leaves ex_params) = [[Fin 0], [], [], [], [], [Fin 0]]"
    by (simp add: leaves_def ex_params_def)
  from init_carry_zero [OF h, of "[]::bool list list" "()" "[]::bool list"]
  show ?thesis unfolding l .
qed

text \<open>
  C6 as stated fails on a parameter that is not finite: the accumulators are built as
  \<open>x * 0\<close>, which is NaN for a NaN (or infinite) \<open>x\<close>.
\<close>

theorem init_carry_zero_counterexample:
  "p_omega (c_sum_O (init_carry ([]::bool list list) () ex_nan ([]::bool list))) = [NaN] \<and>
   p_omega (c_sum_O_times_local_energy (init_carry ([]::bool list list) () ex_nan ([]::bool list))) = [NaN] \<and>
   [NaN] \<noteq> [Fin 0]"
  by (simp add: init_carry_def tree_map_def arr_scale_def ex_nan_def)

lemma ex_kernel_step0:
  "calc_local_energy_kernel path_keys recording_nnqs ex_c0 = Some (ex_c1, Fin 0)"
  by (simp add: calc_local_energy_kernel_def Let_def path_keys_def recording_nnqs_def ex_c0_def
      ex_c1_def init_carry_def tree_map_def tree_map2_def arr_add_def arr_zip_def arr_scale_def
      ex_params_def)

lemma ex_kernel_step1:
  "calc_local_energy_kernel path_keys recording_nnqs ex_c1 = Some (ex_c2, Fin 1)"
  by (simp add: calc_local_energy_kernel_def Let_def path_keys_def recording_nnqs_def
      ex_c1_def ex_c2_def tree_map_def tree_map2_def arr_add_def arr_zip_def arr_scale_def
      ex_params_def)

section \<open>The seed in a step of the kernel\<close>

text \<open>
  C3. In every step of the kernel the incoming seed is split into two keys. One of them,
  the subseed (the second key of the pair that \<open>jax.random.split\<close> returns, which the code
  rebinds to \<open>seed\<close>), is the key the sampler is called with: what the sampler returns there
  is the configuration, the log-amplitude and the statistic of the step. The other one,
  the next seed (the first key of the pair, which the code names \<open>subseed\<close>), is the seed of
  the output carry. The subseed goes nowhere else: the seed of the output carry is the
  subseed only if the split has returned the same key twice.
\<close>

theorem kernel_seed_roles:
  assumes "split lib (c_seed c) = (nextSeed, subseed)"
    and "next_sample self (c_log_psi c) (c_params c) (c_walker_cfg c) subseed = (cfg', lp', nO)"
    and "shape (c_sum_O c) = shape nO"
    and "shape (c_sum_O_times_local_energy c) = shape nO"
  shows "\<exists>c'.
     calc_local_energy_kernel lib self c =
       Some (c', calc_local_energy self (c_params c) (c_walker_cfg c)) \<and>
     c_walker_cfg c' = cfg' \<and> c_log_psi c' = lp' \<and>
     tree_map2 arr_add (c_sum_O c) nO = Some (c_sum_O c') \<and>
     tree_map2 (\<lambda>x y. arr_add x
         (arr_scale y (calc_local_energy self (c_params c) (c_walker_cfg c))))
       (c_sum_O_times_local_energy c) nO = Some (c_sum_O_times_local_energy c') \<and>
     c_seed c' = nextSeed \<and>
     (subseed \<noteq> nextSeed \<longrightarrow> c_seed c' \<noteq> subseed)"
proof -
  from kernel_total [OF assms] obtain so soe where
    k: "calc_local_energy_kernel lib self c =
       Some (\<lparr>c_log_psi = lp', c_params = c_params c, c_walker_cfg = cfg', c_sum_O = so,
              c_sum_O_times_local_energy = soe, c_seed = nextSeed\<rparr>,
             calc_local_energy self (c_params c) (c_walker_cfg c))"
    by blast
  from kernel_inversion(6,7) [OF k] assms(1,2) k show ?thesis by auto
qed

theorem kernel_seed_roles_witness:
  "\<exists>c'.
     calc_local_energy_kernel path_keys recording_nnqs ex_c0 =
       Some (c', calc_local_energy recording_nnqs (c_params ex_c0) (c_walker_cfg ex_c0)) \<and>
     c_walker_cfg c' = [[True]] \<and> c_log_psi c' = () \<and>
     tree_map2 arr_add (c_sum_O ex_c0) ex_params = Some (c_sum_O c') \<and>
     tree_map2 (\<lambda>x y. arr_add x
         (arr_scale y (calc_local_energy recording_nnqs (c_params ex_c0) (c_walker_cfg ex_c0))))
       (c_sum_O_times_local_energy ex_c0) ex_params = Some (c_sum_O_times_local_energy c') \<and>
     c_seed c' = [False] \<and> c_seed c' \<noteq> [True]"
proof -
  have h1: "split path_keys (c_seed ex_c0) = ([False], [True])"
    by (simp add: path_keys_def ex_c0_def init_carry_def)
  have h2: "next_sample recording_nnqs (c_log_psi ex_c0) (c_params ex_c0) (c_walker_cfg ex_c0)
      [True] = ([[True]], (), ex_params)"
    by (simp add: recording_nnqs_def ex_c0_def init_carry_def)
  have h3: "shape (c_sum_O ex_c0) = shape ex_params"
    by (simp add: ex_c0_def init_carry_def shape_def tree_map_def arr_scale_def ex_params_def)
  have h4: "shape (c_sum_O_times_local_energy ex_c0) = shape ex_params"
    by (simp add: ex_c0_def init_carry_def shape_def tree_map_def arr_scale_def ex_params_def)
  from kernel_seed_roles [OF h1 h2 h3 h4] show ?thesis by auto
qed

section \<open>The parameters in the carry\<close>

lemma scan_kernel_params:
  "scan (calc_local_energy_kernel lib self) c n = Some (c', es) \<Longrightarrow> c_params c' = c_params c"
proof (induction n arbitrary: c c' es)
  case 0
  then show ?case by simp
next
  case (Suc n)
  from Suc.prems obtain c1 y ys where
    step: "calc_local_energy_kernel lib self c = Some (c1, y)"
    and rest: "scan (calc_local_energy_kernel lib self) c1 n = Some (c', ys)"
    by (auto split: option.splits prod.splits)
  from Suc.IH [OF rest] kernel_inversion(1) [OF step] show ?case by simp
qed

text \<open>
  C9. At every step of a batch, that is for the carry \<open>ci\<close> reached from the initial
  carry \<open>c0\<close> by any number \<open>i\<close> of steps and the step run on it: the parameters of \<open>ci\<close>
  and of the carry the step returns are those of \<open>c0\<close>, and both the Hamiltonian and the
  sampler are called with them.
\<close>

theorem kernel_params_frame:
  assumes "scan (calc_local_energy_kernel lib self) c0 i = Some (ci, es)"
    and "calc_local_energy_kernel lib self ci = Some (c', e)"
  shows "c_params ci = c_params c0 \<and> c_params c' = c_params c0 \<and>
     e = calc_local_energy self (c_params c0) (c_walker_cfg ci) \<and>
     (c_walker_cfg c', c_log_psi c') =
       (let (cfg, lp, nO) = next_sample self (c_log_psi ci) (c_params c0) (c_walker_cfg ci)
                               (snd (split lib (c_seed ci)))
        in (cfg, lp))"
  using scan_kernel_params [OF assms(1)] kernel_inversion(1,3,4,5) [OF assms(2)]
  by (simp add: case_prod_beta)

theorem kernel_params_frame_witness:
  "scan (calc_local_energy_kernel path_keys recording_nnqs) ex_c0 (Suc 0) = Some (ex_c1, [Fin 0]) \<and>
   calc_local_energy_kernel path_keys recording_nnqs ex_c1 = Some (ex_c2, Fin 1) \<and>
   c_params ex_c1 = c_params ex_c0 \<and> c_params ex_c2 = c_params ex_c0 \<and>
   Fin 1 = calc_local_energy recording_nnqs (c_params ex_c0) (c_walker_cfg ex_c1) \<and>
   (c_walker_cfg ex_c2, c_log_psi ex_c2) =
     (let (cfg, lp, nO) = next_sample recording_nnqs (c_log_psi ex_c1) (c_params ex_c0)
                             (c_walker_cfg ex_c1) (snd (split path_keys (c_seed ex_c1)))
      in (cfg, lp))"
proof -
  have h1: "scan (calc_local_energy_kernel path_keys recording_nnqs) ex_c0 (Suc 0) =
      Some (ex_c1, [Fin 0])"
    by (simp add: ex_kernel_step0)
  have h2: "calc_local_energy_kernel path_keys recording_nnqs ex_c1 = Some (ex_c2, Fin 1)"
    by (rule ex_kernel_step1)
  show ?thesis
    using h1 h2 kernel_params_frame [OF h1 h2] by blast
qed

section \<open>The batch evaluator\<close>

lemma kernel_invariant:
  assumes sampler: "\<forall>lp q cfg k. shape (snd (snd (next_sample self lp q cfg k))) = shape q"
    and inv: "shape (c_sum_O c) = shape (c_params c)"
      "shape (c_sum_O_times_local_energy c) = shape (c_params c)"
  shows "\<exists>c' e. calc_local_energy_kernel lib self c = Some (c', e) \<and>
     shape (c_sum_O c') = shape (c_params c') \<and>
     shape (c_sum_O_times_local_energy c') = shape (c_params c')"
proof -
  obtain s1 s2 where sp: "split lib (c_seed c) = (s1, s2)" by (cases "split lib (c_seed c)")
  obtain cfg' lp' nO where
    ns: "next_sample self (c_log_psi c) (c_params c) (c_walker_cfg c) s2 = (cfg', lp', nO)"
    by (cases "next_sample self (c_log_psi c) (c_params c) (c_walker_cfg c) s2")
  from sampler have "shape (snd (snd (next_sample self (c_log_psi c) (c_params c)
      (c_walker_cfg c) s2))) = shape (c_params c)" by blast
  with ns have nO: "shape nO = shape (c_params c)" by simp
  from kernel_total [OF sp ns] inv nO show ?thesis by fastforce
qed

text \<open>
  C2. When the sampler returns a statistic of the parameters' shape, the batch evaluator
  returns, and its result is that of \<open>batch_size\<close> steps of the kernel run in sequence:
  there are carries \<open>cs ! 0, ..., cs ! batch_size\<close>, the first being the initial carry,
  such that step \<open>i\<close> of the kernel takes \<open>cs ! i\<close> to \<open>cs ! (i + 1)\<close> and emits the
  \<open>i\<close>-th local energy; there are \<open>batch_size\<close> local energies; \<open>E\<close> is their sum divided
  by \<open>batch_size\<close>; \<open>O\<close> and \<open>O_times_E\<close> are the accumulators of the last carry divided
  leaf by leaf by \<open>batch_size\<close>.
\<close>

theorem calc_local_energies_batch:
  assumes "\<forall>lp q cfg k. shape (snd (snd (next_sample self lp q cfg k))) = shape q"
  shows "\<exists>local_energies E O' O_times_E cs.
     calc_local_energies lib self init_walker_cfg init_log_psi params seed =
       Some (local_energies, E, O', O_times_E) \<and>
     length cs = Suc (batch_size self) \<and>
     cs ! 0 = init_carry init_walker_cfg init_log_psi params seed \<and>
     (\<forall>i<batch_size self.
        calc_local_energy_kernel lib self (cs ! i) = Some (cs ! Suc i, local_energies ! i)) \<and>
     length local_energies = batch_size self \<and>
     E = fdiv (arr_sum local_energies) (Fin (real (batch_size self))) \<and>
     O' = tree_map (\<lambda>x. arr_div x (Fin (real (batch_size self))))
            (c_sum_O (cs ! batch_size self)) \<and>
     O_times_E = tree_map (\<lambda>x. arr_div x (Fin (real (batch_size self))))
            (c_sum_O_times_local_energy (cs ! batch_size self))"
proof -
  let ?c0 = "init_carry init_walker_cfg init_log_psi params seed"
  let ?I = "\<lambda>c. shape (c_sum_O c) = shape (c_params c) \<and>
     shape (c_sum_O_times_local_energy c) = shape (c_params c)"
  have I0: "?I ?c0"
    by (simp add: init_carry_def shape_tree_map arr_scale_def)
  have step: "\<And>c. ?I c \<Longrightarrow> \<exists>c' e. calc_local_energy_kernel lib self c = Some (c', e) \<and> ?I c'"
    using kernel_invariant [OF assms] by blast
  from scan_total [of ?I "calc_local_energy_kernel lib self", OF step I0]
  obtain c' les where
    run: "scan (calc_local_energy_kernel lib self) ?c0 (batch_size self) = Some (c', les)"
    by blast
  from scan_chain [OF run] obtain cs where cs: "length cs = Suc (batch_size self)"
    "cs ! 0 = ?c0" "cs ! batch_size self = c'" "length les = batch_size self"
    "\<forall>i<batch_size self. calc_local_energy_kernel lib self (cs ! i) = Some (cs ! Suc i, les ! i)"
    by blast
  have "calc_local_energies lib self init_walker_cfg init_log_psi params seed =
      Some (les, fdiv (arr_sum les) (Fin (real (batch_size self))),
        tree_map (\<lambda>x. arr_div x (Fin (real (batch_size self)))) (c_sum_O c'),
        tree_map (\<lambda>x. arr_div x (Fin (real (batch_size self)))) (c_sum_O_times_local_energy c'))"
    by (simp add: calc_local_energies_def run)
  with cs show ?thesis by blast
qed

theorem calc_local_energies_batch_witness:
  "(\<forall>lp q cfg k. shape (snd (snd (next_sample recording_nnqs lp q cfg k))) = shape q) \<and>
   (\<exists>local_energies E O' O_times_E cs.
     calc_local_energies path_keys recording_nnqs [] () ex_params [] =
       Some (local_energies, E, O', O_times_E) \<and>
     length cs = Suc (batch_size recording_nnqs) \<and>
     cs ! 0 = init_carry [] () ex_params [] \<and>
     (\<forall>i<batch_size recording_nnqs.
        calc_local_energy_kernel path_keys recording_nnqs (cs ! i) =
          Some (cs ! Suc i, local_energies ! i)) \<and>
     length local_energies = batch_size recording_nnqs \<and>
     E = fdiv (arr_sum local_energies) (Fin (real (batch_size recording_nnqs))) \<and>
     O' = tree_map (\<lambda>x. arr_div x (Fin (real (batch_size recording_nnqs))))
            (c_sum_O (cs ! batch_size recording_nnqs)) \<and>
     O_times_E = tree_map (\<lambda>x. arr_div x (Fin (real (batch_size recording_nnqs))))
            (c_sum_O_times_local_energy (cs ! batch_size recording_nnqs)))"
proof -
  have h: "\<forall>lp q cfg k. shape (snd (snd (next_sample recording_nnqs lp q cfg k))) = shape q"
    by (simp add: recording_nnqs_def)
  show ?thesis
    using h calc_local_energies_batch [OF h, of path_keys "[]" "()" ex_params "[]"] by blast
qed

lemma ex_calc_local_energies:
  "calc_local_energies path_keys recording_nnqs [] () ex_params [] =
     Some ([Fin 0, Fin 1], Fin (1 / 2), ex_params,
       \<lparr>p_V = [[Fin 1]], p_b = [], p_W = [], p_c = [], p_w_alpha = [],
         p_g_alpha = [], p_Sigma_alpha = [], p_pi_alpha = [], p_omega = [Fin (1 / 2)]\<rparr>)"
proof -
  have "scan (calc_local_energy_kernel path_keys recording_nnqs) ex_c0 (Suc (Suc 0)) =
      Some (ex_c2, [Fin 0, Fin 1])"
    by (simp add: ex_kernel_step0 ex_kernel_step1)
  moreover have "batch_size recording_nnqs = Suc (Suc 0)"
    by (simp add: recording_nnqs_def)
  ultimately show ?thesis
    by (simp add: calc_local_energies_def ex_c0_def [symmetric])
      (simp add: ex_c2_def arr_sum_def tree_map_def arr_div_def arr_scale_def ex_params_def)
qed

section \<open>The seeds of a batch\<close>












lemma ex_batch_seeds:
  "map (\<lambda>i. snd (split word_keys (c_seed ([ex_w0, ex_w1, ex_w2] ! i)))) [0..<2] = [2, 4]"
  by (simp add: numeral_2_eq_2 word_keys_def ex_w0_def ex_w1_def init_carry_def)

section \<open>The shape of the batch outputs\<close>

lemma zip_leaves_Some_lengths:
  assumes f: "\<And>x y z. f x y = Some z \<Longrightarrow> length z = length x"
  shows "zip_leaves f xs ys = Some zs \<Longrightarrow> map length zs = map length xs"
proof (induction xs arbitrary: ys zs)
  case Nil
  then show ?case by (cases ys) auto
next
  case (Cons x xs)
  from Cons.prems obtain y ys' where ys: "ys = y # ys'" by (cases ys) auto
  with Cons.prems obtain z zs' where
    z: "f x y = Some z" "zip_leaves f xs ys' = Some zs'" "zs = z # zs'"
    by (auto split: option.splits)
  from Cons.IH [OF z(2)] f [OF z(1)] z(3) show ?case by simp
qed

lemma tree_map2_Some_shape:
  assumes f: "\<And>x y z. f x y = Some z \<Longrightarrow> length z = length x"
    and r: "tree_map2 f p q = Some r"
  shows "shape r = shape p"
proof -
  from r obtain v b w c wa ga sa pa om where
    l: "zip_leaves f (p_V p) (p_V q) = Some v" "zip_leaves f (p_b p) (p_b q) = Some b"
      "zip_leaves f (p_W p) (p_W q) = Some w" "zip_leaves f (p_c p) (p_c q) = Some c"
    and a: "f (p_w_alpha p) (p_w_alpha q) = Some wa" "f (p_g_alpha p) (p_g_alpha q) = Some ga"
      "f (p_Sigma_alpha p) (p_Sigma_alpha q) = Some sa" "f (p_pi_alpha p) (p_pi_alpha q) = Some pa"
      "f (p_omega p) (p_omega q) = Some om"
    and r': "r = \<lparr>p_V = v, p_b = b, p_W = w, p_c = c, p_w_alpha = wa, p_g_alpha = ga,
           p_Sigma_alpha = sa, p_pi_alpha = pa, p_omega = om\<rparr>"
    by (auto simp: tree_map2_def bind_eq_Some_conv)
  have zl: "\<And>xs ys zs. zip_leaves f xs ys = Some zs \<Longrightarrow> map length zs = map length xs"
    by (rule zip_leaves_Some_lengths) (rule f)
  have "map length v = map length (p_V p)" "map length b = map length (p_b p)"
    "map length w = map length (p_W p)" "map length c = map length (p_c p)"
    by (rule zl [OF l(1)], rule zl [OF l(2)], rule zl [OF l(3)], rule zl [OF l(4)])
  moreover have "length wa = length (p_w_alpha p)" "length ga = length (p_g_alpha p)"
    "length sa = length (p_Sigma_alpha p)" "length pa = length (p_pi_alpha p)"
    "length om = length (p_omega p)"
    by (rule f [OF a(1)], rule f [OF a(2)], rule f [OF a(3)], rule f [OF a(4)], rule f [OF a(5)])
  ultimately show ?thesis by (simp add: r' shape_def)
qed

lemma arr_add_Some_length: "arr_add x y = Some z \<Longrightarrow> length z = length x"
  by (auto simp: arr_add_def arr_zip_def split: if_splits)

lemma kernel_shapes:
  assumes "calc_local_energy_kernel lib self c = Some (c', e)"
  shows "shape (c_sum_O c') = shape (c_sum_O c)"
    and "shape (c_sum_O_times_local_energy c') = shape (c_sum_O_times_local_energy c)"
proof -
  show "shape (c_sum_O c') = shape (c_sum_O c)"
    by (rule tree_map2_Some_shape [OF _ kernel_inversion(6) [OF assms]])
      (rule arr_add_Some_length)
  show "shape (c_sum_O_times_local_energy c') = shape (c_sum_O_times_local_energy c)"
    by (rule tree_map2_Some_shape [OF _ kernel_inversion(7) [OF assms]])
      (rule arr_add_Some_length)
qed

lemma scan_kernel_shapes:
  "scan (calc_local_energy_kernel lib self) c n = Some (c', es) \<Longrightarrow>
   shape (c_sum_O c') = shape (c_sum_O c) \<and>
   shape (c_sum_O_times_local_energy c') = shape (c_sum_O_times_local_energy c)"
proof (induction n arbitrary: c c' es)
  case 0
  then show ?case by simp
next
  case (Suc n)
  from Suc.prems obtain c1 y ys where
    step: "calc_local_energy_kernel lib self c = Some (c1, y)"
    and rest: "scan (calc_local_energy_kernel lib self) c1 n = Some (c', ys)"
    by (auto split: option.splits prod.splits)
  from Suc.IH [OF rest] kernel_shapes [OF step] show ?case by simp
qed

text \<open>
  Whatever the collaborators, a batch that is returned has outputs \<open>O\<close> and \<open>O_times_E\<close>
  of the parameters' shape, so that the gradient estimator is defined on them.
\<close>

lemma batch_outputs_shape:
  assumes "calc_local_energies lib self cfg lp params seed = Some (les, E, O', O_times_E)"
  shows "shape O' = shape params" and "shape O_times_E = shape params"
proof -
  from assms obtain c' where
    run: "scan (calc_local_energy_kernel lib self) (init_carry cfg lp params seed)
            (batch_size self) = Some (c', les)"
    and O: "O' = tree_map (\<lambda>x. arr_div x (Fin (real (batch_size self)))) (c_sum_O c')"
    and OE: "O_times_E = tree_map (\<lambda>x. arr_div x (Fin (real (batch_size self))))
               (c_sum_O_times_local_energy c')"
    by (auto simp: calc_local_energies_def Let_def bind_eq_Some_conv)
  from scan_kernel_shapes [OF run] have
    "shape (c_sum_O c') = shape params" "shape (c_sum_O_times_local_energy c') = shape params"
    by (simp_all add: init_carry_def shape_tree_map arr_scale_def)
  with O OE show "shape O' = shape params" and "shape O_times_E = shape params"
    by (simp_all add: shape_tree_map arr_div_def)
qed

lemma batch_gradient_defined:
  assumes "calc_local_energies lib self cfg lp params seed = Some (les, E, O', O_times_E)"
  shows "\<exists>g. grad_L E O_times_E O' = Some g \<and> shape g = shape params"
  using grad_L_leaves [of O_times_E O' E] batch_outputs_shape [OF assms] by auto

section \<open>The training loop\<close>

lemma train_iteration_Es:
  "train_iteration lib self optimizer jitted st = Some st' \<Longrightarrow>
   \<exists>E. t_Es st' = t_Es st @ [E]"
  by (auto simp: train_iteration_def Let_def case_prod_beta bind_eq_Some_conv)

lemma train_loop_history_length:
  "for_range n (train_iteration lib self optimizer jitted) st = Some st' \<Longrightarrow>
   length (t_Es st') = length (t_Es st) + n"
proof (induction n arbitrary: st)
  case 0
  then show ?case by simp
next
  case (Suc n)
  from Suc.prems obtain s1 where
    s1: "train_iteration lib self optimizer jitted st = Some s1"
    and rest: "for_range n (train_iteration lib self optimizer jitted) s1 = Some st'"
    by (auto split: option.splits)
  from train_iteration_Es [OF s1] Suc.IH [OF rest] show ?case by auto
qed

text \<open>
  C7. The code does not reach the loop: whatever the arguments, \<open>train\<close> raises
  \<open>NameError\<close> on the name \<open>plt\<close>, which driver.py reads at line 151 and binds nowhere.
\<close>

theorem train_raises_NameError:
  "train lib self n_iters params optimizer expected_E = Inl (NameError ''plt'')"
  by (simp add: train_def module_globals_def Let_def)

text \<open>
  C4. The loop hands the same seed to every batch evaluation: running the loop on a
  batch evaluator is running it on the evaluator with its seed fixed to
  \<open>jax.random.PRNGKey(0)\<close>, for any number of iterations.
\<close>

theorem train_batch_seed_fixed:
  "for_range n (train_iteration lib self optimizer jitted) st =
   for_range n (train_iteration lib self optimizer
                  (\<lambda>cfg lp p seed. jitted cfg lp p (PRNGKey lib 0))) st"
proof -
  have "train_iteration lib self optimizer jitted =
      train_iteration lib self optimizer (\<lambda>cfg lp p seed. jitted cfg lp p (PRNGKey lib 0))"
    by (rule ext) (simp add: train_iteration_def)
  then show ?thesis by simp
qed

text \<open>
  When the sampler returns a statistic of the parameters' shape, every iteration of the
  loop completes, and \<open>n\<close> iterations append \<open>n\<close> energies to the history.
\<close>

lemma train_iteration_total:
  assumes "\<forall>lp q cfg k. shape (snd (snd (next_sample self lp q cfg k))) = shape q"
  shows "\<exists>st' E. train_iteration lib self optimizer (calc_local_energies lib self) st = Some st'
     \<and> t_Es st' = t_Es st @ [E]"
proof -
  let ?cfg = "concatenate lib (init_walker_config self (Fin 1) (snd (split lib (t_key st))))"
  let ?lp = "ferminet_apply self (t_params st) ?cfg"
  let ?I = "\<lambda>c. shape (c_sum_O c) = shape (c_params c) \<and>
     shape (c_sum_O_times_local_energy c) = shape (c_params c)"
  have I0: "?I (init_carry ?cfg ?lp (t_params st) (PRNGKey lib 0))"
    by (simp add: init_carry_def shape_tree_map arr_scale_def)
  have step: "\<And>c. ?I c \<Longrightarrow> \<exists>c' e. calc_local_energy_kernel lib self c = Some (c', e) \<and> ?I c'"
    using kernel_invariant [OF assms] by blast
  from scan_total [of ?I "calc_local_energy_kernel lib self", OF step I0]
  have "\<exists>c' les. scan (calc_local_energy_kernel lib self)
      (init_carry ?cfg ?lp (t_params st) (PRNGKey lib 0)) (batch_size self) = Some (c', les)"
    by blast
  then obtain les E O' OE where
    b: "calc_local_energies lib self ?cfg ?lp (t_params st) (PRNGKey lib 0) = Some (les, E, O', OE)"
    by (auto simp: calc_local_energies_def Let_def)
  from batch_gradient_defined [OF b] obtain g where g: "grad_L E OE O' = Some g" by blast
  show ?thesis
    by (simp add: train_iteration_def Let_def case_prod_beta b g)
qed

lemma train_loop_total:
  assumes "\<forall>lp q cfg k. shape (snd (snd (next_sample self lp q cfg k))) = shape q"
  shows "\<exists>st' Es'. for_range n (train_iteration lib self optimizer (calc_local_energies lib self)) st
       = Some st' \<and> t_Es st' = t_Es st @ Es' \<and> length Es' = n"
proof (induction n arbitrary: st)
  case 0
  then show ?case by simp
next
  case (Suc n)
  from train_iteration_total [OF assms, of lib optimizer st] obtain s1 E where
    s1: "train_iteration lib self optimizer (calc_local_energies lib self) st = Some s1"
      "t_Es s1 = t_Es st @ [E]" by blast
  from Suc.IH [of s1] obtain st' Es' where
    "for_range n (train_iteration lib self optimizer (calc_local_energies lib self)) s1 = Some st'"
    "t_Es st' = t_Es s1 @ Es'" "length Es' = n" by blast
  with s1 show ?case by (intro exI [of _ st'] exI [of _ "E # Es'"]) simp
qed

end
